theory Spec2Isabelle
  imports Complex_Main
begin

section \<open>Python values\<close>

text \<open>
  A Python \<^verbatim>\<open>str\<close> is a sequence of Unicode code points, and \<^verbatim>\<open>len\<close> counts code
  points: it is modelled as a list of code points. \<open>str\<close> reads an ASCII literal.

  A Python \<^verbatim>\<open>float\<close> is a double. Here it is a real number and its arithmetic is
  exact, which the arithmetic of doubles is not: that rounds every sum and product to
  the nearest double and overflows to infinity and NaN. The amounts that the model
  computes are therefore the program's only where that rounding does not change what
  is stored, as in the examples below, which hold prices with few digits; no statement
  about all requests below says what the value of an amount is. Comparisons of floats
  are exact in both. \<^verbatim>\<open>round(x, n)\<close> of a float gives the decimal with \<open>n\<close> places
  nearest to \<open>x\<close>, a tie going to the even last digit.

  A \<^verbatim>\<open>datetime\<close> is an instant that the clock supplies; only its identity matters.
\<close>

type_synonym pystr = "nat list"

definition str :: "string \<Rightarrow> pystr" where
  "str s = map of_char s"

type_synonym datetime = nat

definition round_half_even :: "real \<Rightarrow> int" where
  "round_half_even y =
     (let f = \<lfloor>y\<rfloor>; d = y - of_int f in
      if d < 1 / 2 then f
      else if 1 / 2 < d then f + 1
      else if even f then f else f + 1)"

definition py_round :: "real \<Rightarrow> nat \<Rightarrow> real" where
  "py_round x ndigits = of_int (round_half_even (x * 10 ^ ndigits)) / 10 ^ ndigits"

text \<open>
  \<^verbatim>\<open>str.upper\<close> on the characters of a UUID's text (hexadecimal digits and the
  hyphen, all ASCII): a lower-case ASCII letter moves to its capital, every other ASCII
  character stays.
\<close>

definition upper_char :: "nat \<Rightarrow> nat" where
  "upper_char c = (if 97 \<le> c \<and> c \<le> 122 then c - 32 else c)"

definition upper :: "pystr \<Rightarrow> pystr" where
  "upper s = map upper_char s"

text \<open>
  A UUID is a 128-bit number. \<^verbatim>\<open>UUID.hex\<close> is its 32 lower-case hexadecimal digits,
  \<^verbatim>\<open>str(UUID)\<close> the same digits in groups of 8-4-4-4-12 joined by hyphens.
\<close>

definition hex_digit :: "nat \<Rightarrow> nat" where
  "hex_digit d = (if d < 10 then 48 + d else 87 + d)"

definition uuid_hex :: "nat \<Rightarrow> pystr" where
  "uuid_hex u = map (\<lambda>i. hex_digit ((u div 16 ^ (31 - i)) mod 16)) [0..<32]"

definition uuid_str :: "nat \<Rightarrow> pystr" where
  "uuid_str u =
     (let h = uuid_hex u in
      take 8 h @ str ''-'' @ take 4 (drop 8 h) @ str ''-'' @ take 4 (drop 12 h) @ str ''-''
        @ take 4 (drop 16 h) @ str ''-'' @ drop 20 h)"

text \<open>
  What the clock and the random source return during one call:
  \<^verbatim>\<open>datetime.now().strftime("%Y%m%d")\<close>, \<^verbatim>\<open>datetime.utcnow()\<close>,
  \<^verbatim>\<open>datetime.utcnow().isoformat()\<close> and \<^verbatim>\<open>uuid.uuid4()\<close>.
\<close>

record env =
  now_strftime :: pystr
  utcnow :: datetime
  utcnow_isoformat :: pystr
  uuid4 :: nat

section \<open>Errors\<close>

text \<open>
  \<open>ValueError\<close> is Python's exception, raised by the validators of the models and by
  \<^verbatim>\<open>_validate_menu_items\<close>; the message is kept as its kind. \<open>ValidationError\<close> is
  what pydantic raises from a model's constructor when a field fails, whether by a
  \<^verbatim>\<open>Field\<close> constraint or by a validator's \<open>ValueError\<close>; it carries the first
  failure.
\<close>

datatype message =
    PhoneFormat
  | AddressRequired
  | ItemsEmpty
  | MenuItemAbsent int
  | Constraint string

datatype error = ValueError message | ValidationError message

section \<open>models.py\<close>

record OrderItem =
  menu_item_id :: int
  name :: pystr
  quantity :: int
  price :: real
  modifiers :: "pystr list"

text \<open>The \<^verbatim>\<open>Field\<close> constraints of \<^verbatim>\<open>OrderItem\<close>, in the order of the fields.\<close>

definition OrderItem_init ::
  "int \<Rightarrow> pystr \<Rightarrow> int \<Rightarrow> real \<Rightarrow> pystr list \<Rightarrow> error + OrderItem" where
  "OrderItem_init menu_item_id_arg name_arg quantity_arg price_arg modifiers_arg =
     (if \<not> 0 < menu_item_id_arg then Inl (ValidationError (Constraint ''menu_item_id''))
      else if \<not> (2 \<le> length name_arg \<and> length name_arg \<le> 100)
        then Inl (ValidationError (Constraint ''name''))
      else if \<not> (0 < quantity_arg \<and> quantity_arg \<le> 20)
        then Inl (ValidationError (Constraint ''quantity''))
      else if \<not> 0 < price_arg then Inl (ValidationError (Constraint ''price''))
      else Inr \<lparr>menu_item_id = menu_item_id_arg, name = name_arg, quantity = quantity_arg,
                price = price_arg, modifiers = modifiers_arg\<rparr>)"

definition OrderItem_valid :: "OrderItem \<Rightarrow> bool" where
  "OrderItem_valid i \<longleftrightarrow>
     OrderItem_init (menu_item_id i) (OrderItem.name i) (quantity i) (OrderItem.price i)
       (modifiers i) = Inr i"

record OrderRequest =
  customer_name :: pystr
  customer_phone :: pystr
  items :: "OrderItem list"
  delivery_address :: "pystr option"
  is_delivery :: bool
  special_instructions :: "pystr option"

text \<open>
  The classes of the phone pattern \<^verbatim>\<open>^[\d\s\-\+\(\)]{5,20}$\<close>. In a \<^verbatim>\<open>str\<close>
  pattern \<^verbatim>\<open>\s\<close> is Unicode white space and \<^verbatim>\<open>\d\<close> is any Unicode decimal digit:
  the ASCII digits, and the digits of other scripts, whose table belongs to the Python
  build and is the parameter \<open>nd\<close>.
\<close>

definition re_space :: "nat \<Rightarrow> bool" where
  "re_space c \<longleftrightarrow>
     (9 \<le> c \<and> c \<le> 13) \<or> (28 \<le> c \<and> c \<le> 32) \<or> c = 133 \<or> c = 160 \<or> c = 5760
     \<or> (8192 \<le> c \<and> c \<le> 8202) \<or> c = 8232 \<or> c = 8233 \<or> c = 8239 \<or> c = 8287
     \<or> c = 12288"

definition re_digit :: "(nat \<Rightarrow> bool) \<Rightarrow> nat \<Rightarrow> bool" where
  "re_digit nd c \<longleftrightarrow> (48 \<le> c \<and> c \<le> 57) \<or> nd c"

definition phone_class :: "(nat \<Rightarrow> bool) \<Rightarrow> nat \<Rightarrow> bool" where
  "phone_class nd c \<longleftrightarrow>
     re_digit nd c \<or> re_space c \<or> c = 45 \<or> c = 43 \<or> c = 40 \<or> c = 41"

text \<open>
  \<^verbatim>\<open>re.match\<close> of the pattern: 5 to 20 characters of the class up to the end of the
  string, where \<^verbatim>\<open>$\<close> also matches just before one final newline.
\<close>

definition phone_pattern_match :: "(nat \<Rightarrow> bool) \<Rightarrow> pystr \<Rightarrow> bool" where
  "phone_pattern_match nd v \<longleftrightarrow>
     (5 \<le> length v \<and> length v \<le> 20 \<and> list_all (phone_class nd) v)
     \<or> (v \<noteq> [] \<and> last v = 10 \<and> 5 \<le> length (butlast v) \<and> length (butlast v) \<le> 20
        \<and> list_all (phone_class nd) (butlast v))"

definition validate_phone :: "(nat \<Rightarrow> bool) \<Rightarrow> pystr \<Rightarrow> error + pystr" where
  "validate_phone nd v =
     (if \<not> phone_pattern_match nd v then Inl (ValueError PhoneFormat) else Inr v)"

text \<open>
  A validator's \<^verbatim>\<open>values\<close> argument is a dictionary from field names to the values
  of the fields validated before this one. \<open>truthy\<close> is Python's truth value of what
  \<^verbatim>\<open>values.get\<close> returns (\<^verbatim>\<open>None\<close> for a missing key).
\<close>

datatype pyvalue =
    PyNone
  | PyBool bool
  | PyStr pystr
  | PyFloat real
  | PyItems "OrderItem list"

fun truthy :: "pyvalue \<Rightarrow> bool" where
  "truthy PyNone = False"
| "truthy (PyBool b) = b"
| "truthy (PyStr s) = (s \<noteq> [])"
| "truthy (PyFloat x) = (x \<noteq> 0)"
| "truthy (PyItems xs) = (xs \<noteq> [])"

definition values_get :: "(string \<rightharpoonup> pyvalue) \<Rightarrow> string \<Rightarrow> pyvalue" where
  "values_get d k = (case d k of None \<Rightarrow> PyNone | Some v \<Rightarrow> v)"

definition validate_delivery_address ::
  "pystr option \<Rightarrow> (string \<rightharpoonup> pyvalue) \<Rightarrow> error + pystr option" where
  "validate_delivery_address v values =
     (if truthy (values_get values ''is_delivery'') \<and> (v = None \<or> v = Some [])
      then Inl (ValueError AddressRequired) else Inr v)"

definition validate_items :: "OrderItem list \<Rightarrow> error + OrderItem list" where
  "validate_items v = (if v = [] then Inl (ValueError ItemsEmpty) else Inr v)"

text \<open>
  The constructor of \<^verbatim>\<open>OrderRequest\<close>. Pydantic validates the fields in the order
  the class declares them: \<^verbatim>\<open>customer_name\<close>, \<^verbatim>\<open>customer_phone\<close>, \<^verbatim>\<open>items\<close>,
  \<^verbatim>\<open>delivery_address\<close>, \<^verbatim>\<open>is_delivery\<close>, \<^verbatim>\<open>special_instructions\<close>. For each
  field the \<^verbatim>\<open>Field\<close> constraints come first, then the field's validator, which
  receives in \<^verbatim>\<open>values\<close> the fields validated so far; a validator's \<open>ValueError\<close>
  becomes the constructor's \<open>ValidationError\<close>. A field with a default that is not
  passed takes the default and its validator is not called: \<open>delivery_address_arg\<close> is
  \<open>None\<close> when the argument is not passed, \<open>is_delivery_arg\<close> likewise. The other
  arguments are given, and all are of the declared Python types, the items being
  \<^verbatim>\<open>OrderItem\<close> objects.
\<close>

definition field_error :: "error \<Rightarrow> error" where
  "field_error err = (case err of ValueError m \<Rightarrow> ValidationError m | _ \<Rightarrow> err)"

definition OrderRequest_init ::
  "(nat \<Rightarrow> bool) \<Rightarrow> pystr \<Rightarrow> pystr \<Rightarrow> OrderItem list \<Rightarrow> pystr option option \<Rightarrow> bool option
     \<Rightarrow> pystr option \<Rightarrow> error + OrderRequest" where
  "OrderRequest_init nd customer_name_arg customer_phone_arg items_arg delivery_address_arg
       is_delivery_arg special_instructions_arg =
     (if \<not> (2 \<le> length customer_name_arg \<and> length customer_name_arg \<le> 100)
        then Inl (ValidationError (Constraint ''customer_name''))
      else if \<not> (5 \<le> length customer_phone_arg \<and> length customer_phone_arg \<le> 20)
        then Inl (ValidationError (Constraint ''customer_phone''))
      else (case validate_phone nd customer_phone_arg of
        Inl err \<Rightarrow> Inl (field_error err)
      | Inr phone \<Rightarrow>
         (if \<not> list_all OrderItem_valid items_arg
            then Inl (ValidationError (Constraint ''items''))
          else (case validate_items items_arg of
            Inl err \<Rightarrow> Inl (field_error err)
          | Inr its \<Rightarrow>
             (let values = Map.empty(''customer_name'' \<mapsto> PyStr customer_name_arg,
                                     ''customer_phone'' \<mapsto> PyStr phone,
                                     ''items'' \<mapsto> PyItems its);
                  validated = (case delivery_address_arg of
                                 None \<Rightarrow> Inr None
                               | Some v \<Rightarrow> validate_delivery_address v values)
              in (case validated of
                Inl err \<Rightarrow> Inl (field_error err)
              | Inr address \<Rightarrow>
                 Inr \<lparr>customer_name = customer_name_arg, customer_phone = phone,
                      items = its, delivery_address = address,
                      is_delivery = (case is_delivery_arg of None \<Rightarrow> False | Some b \<Rightarrow> b),
                      special_instructions = special_instructions_arg\<rparr>))))))"

record OrderResponse =
  order_id :: pystr
  status :: pystr
  total_amount :: real
  discount_amount :: real
  final_amount :: real
  estimated_minutes :: int
  created_at :: datetime
  customer_name :: pystr
  customer_phone :: pystr
  items :: "OrderItem list"
  is_delivery :: bool
  delivery_address :: "pystr option"
  special_instructions :: "pystr option"

record MenuItem =
  id' :: int
  name :: pystr
  category :: pystr
  description :: "pystr option"
  price :: real
  available :: bool
  preparation_minutes :: int

record MenuResponse =
  categories :: "pystr set"
  items :: "MenuItem list"

section \<open>services.py\<close>

text \<open>
  A Python \<^verbatim>\<open>dict\<close> keeps its keys in the order of their first insertion, and an
  assignment to a key it already holds replaces the value where it stands: the
  dictionary of orders is a list of pairs with distinct keys, read with \<open>map_of\<close>.
\<close>

fun dict_setitem :: "('k \<times> 'v) list \<Rightarrow> 'k \<Rightarrow> 'v \<Rightarrow> ('k \<times> 'v) list" where
  "dict_setitem [] k v = [(k, v)]"
| "dict_setitem ((k', v') # d) k v =
     (if k' = k then (k, v) # d else (k', v') # dict_setitem d k v)"

definition dict_values :: "('k \<times> 'v) list \<Rightarrow> 'v list" where
  "dict_values d = map snd d"

record OrderService =
  orders :: "(pystr \<times> OrderResponse) list"
  delivery_fee :: real
  discount_threshold :: real
  discount_percent :: real
  menu_items :: "MenuItem list"

definition OrderService_init :: OrderService where
  "OrderService_init =
     \<lparr>orders = [],
      delivery_fee = 200,
      discount_threshold = 1000,
      discount_percent = 10,
      menu_items =
        [\<lparr>id' = 101,
          name = [1055, 1080, 1094, 1094, 1072, 32, 1052, 1072, 1088, 1075, 1072, 1088, 1080,
                  1090, 1072],
          category = str ''pizza'',
          description = Some [1058, 1086, 1084, 1072, 1090, 1099, 44, 32, 1084, 1086, 1094,
                  1072, 1088, 1077, 1083, 1083, 1072, 44, 32, 1073, 1072, 1079, 1080, 1083,
                  1080, 1082],
          price = 650, available = True, preparation_minutes = 25\<rparr>,
         \<lparr>id' = 102,
          name = [1055, 1080, 1094, 1094, 1072, 32, 1055, 1077, 1087, 1087, 1077, 1088, 1086,
                  1085, 1080],
          category = str ''pizza'',
          description = Some [1055, 1077, 1087, 1087, 1077, 1088, 1086, 1085, 1080, 44, 32,
                  1084, 1086, 1094, 1072, 1088, 1077, 1083, 1083, 1072, 44, 32, 1090, 1086,
                  1084, 1072, 1090, 1085, 1099, 1081, 32, 1089, 1086, 1091, 1089],
          price = 750, available = True, preparation_minutes = 25\<rparr>,
         \<lparr>id' = 201,
          name = [1057, 1072, 1083, 1072, 1090, 32, 1062, 1077, 1079, 1072, 1088, 1100],
          category = str ''salad'',
          description = Some [1050, 1091, 1088, 1080, 1094, 1072, 44, 32, 1089, 1072, 1083,
                  1072, 1090, 44, 32, 1075, 1088, 1077, 1085, 1082, 1080, 44, 32, 1089, 1086,
                  1091, 1089, 32, 1062, 1077, 1079, 1072, 1088, 1100],
          price = 350, available = True, preparation_minutes = 15\<rparr>,
         \<lparr>id' = 301,
          name = [1050, 1086, 1083, 1072],
          category = str ''drink'',
          description = Some [48, 46, 53, 1083],
          price = 150, available = True, preparation_minutes = 5\<rparr>,
         \<lparr>id' = 302,
          name = [1050, 1086, 1092, 1077, 32, 1051, 1072, 1090, 1090, 1077],
          category = str ''drink'',
          description = Some [51, 53, 48, 1084, 1083],
          price = 250, available = True, preparation_minutes = 10\<rparr>,
         \<lparr>id' = 401,
          name = [1058, 1080, 1088, 1072, 1084, 1080, 1089, 1091],
          category = str ''dessert'',
          description = Some [1050, 1083, 1072, 1089, 1089, 1080, 1095, 1077, 1089, 1082,
                  1080, 1081, 32, 1080, 1090, 1072, 1083, 1100, 1103, 1085, 1089, 1082, 1080,
                  1081, 32, 1076, 1077, 1089, 1077, 1088, 1090],
          price = 300, available = True, preparation_minutes = 5\<rparr>]\<rparr>"

text \<open>The loop raises at the first line item whose identifier is not in the menu.\<close>

fun validate_menu_items :: "OrderService \<Rightarrow> OrderItem list \<Rightarrow> error + unit" where
  "validate_menu_items self [] = Inr ()"
| "validate_menu_items self (order_item # rest) =
     (if menu_item_id order_item \<notin> set (map id' (menu_items self))
      then Inl (ValueError (MenuItemAbsent (menu_item_id order_item)))
      else validate_menu_items self rest)"

text \<open>\<^verbatim>\<open>sum\<close> adds from the left, starting at 0.\<close>

definition calculate_items_total :: "OrderService \<Rightarrow> OrderItem list \<Rightarrow> real" where
  "calculate_items_total self its =
     foldl (+) 0 (map (\<lambda>item. OrderItem.price item * of_int (quantity item)) its)"

definition calculate_discount :: "OrderService \<Rightarrow> real \<Rightarrow> real" where
  "calculate_discount self subtotal =
     (if subtotal \<ge> discount_threshold self
      then subtotal * (discount_percent self / 100) else 0)"

definition calculate_estimated_time :: "OrderService \<Rightarrow> OrderRequest \<Rightarrow> int" where
  "calculate_estimated_time self request =
     (let base_time = 15;
          items_time = foldl (\<lambda>items_time order_item.
              case find (\<lambda>m. id' m = menu_item_id order_item) (menu_items self) of
                None \<Rightarrow> items_time
              | Some menu_item \<Rightarrow> max items_time (preparation_minutes menu_item))
            0 (OrderRequest.items request);
          extra_items_time = max 0 (int (length (OrderRequest.items request)) - 1) * 5;
          delivery_time = (if OrderRequest.is_delivery request then 25 else 0)
      in base_time + items_time + extra_items_time + delivery_time)"

definition generate_order_id :: "env \<Rightarrow> pystr" where
  "generate_order_id e =
     (let date_str = now_strftime e;
          unique_str = upper (take 8 (uuid_str (uuid4 e)))
      in str ''ORD-'' @ date_str @ str ''-'' @ unique_str)"

definition schedule_status_updates :: "OrderService \<Rightarrow> pystr \<Rightarrow> int \<Rightarrow> OrderService" where
  "schedule_status_updates self oid total_minutes = self"

definition create_order ::
  "OrderService \<Rightarrow> env \<Rightarrow> OrderRequest \<Rightarrow> (error + OrderResponse) \<times> OrderService" where
  "create_order self e request =
     (case validate_menu_items self (OrderRequest.items request) of
        Inl err \<Rightarrow> (Inl err, self)
      | Inr _ \<Rightarrow>
         let items_total = calculate_items_total self (OrderRequest.items request);
             fee = (if OrderRequest.is_delivery request then delivery_fee self else 0);
             subtotal = items_total + fee;
             discount = calculate_discount self subtotal;
             final = subtotal - discount;
             minutes = calculate_estimated_time self request;
             oid = generate_order_id e;
             response =
               \<lparr>order_id = oid,
                status = str ''created'',
                total_amount = py_round subtotal 2,
                discount_amount = py_round discount 2,
                final_amount = py_round final 2,
                estimated_minutes = minutes,
                created_at = utcnow e,
                customer_name = OrderRequest.customer_name request,
                customer_phone = OrderRequest.customer_phone request,
                items = OrderRequest.items request,
                is_delivery = OrderRequest.is_delivery request,
                delivery_address = OrderRequest.delivery_address request,
                special_instructions = OrderRequest.special_instructions request\<rparr>;
             self' = self\<lparr>orders := dict_setitem (orders self) oid response\<rparr>
         in (Inr response, schedule_status_updates self' oid minutes))"

definition get_order_status :: "OrderService \<Rightarrow> pystr \<Rightarrow> OrderResponse option" where
  "get_order_status self oid = map_of (orders self) oid"

text \<open>
  The order found is the object the dictionary holds, so the assignment to its
  \<^verbatim>\<open>status\<close> changes the stored order where it stands.
\<close>

definition cancel_order ::
  "OrderService \<Rightarrow> pystr \<Rightarrow> pystr option \<Rightarrow> bool \<times> OrderService" where
  "cancel_order self oid reason =
     (case map_of (orders self) oid of
        None \<Rightarrow> (False, self)
      | Some ord \<Rightarrow>
          if status ord \<in> set [str ''created'', str ''processing'']
          then (True, self\<lparr>orders :=
                  dict_setitem (orders self) oid (ord\<lparr>status := str ''cancelled''\<rparr>)\<rparr>)
          else (False, self))"

definition get_menu :: "OrderService \<Rightarrow> pystr option \<Rightarrow> MenuResponse" where
  "get_menu self category_arg =
     (let its = (case category_arg of
                   None \<Rightarrow> menu_items self
                 | Some c \<Rightarrow> if c = [] then menu_items self
                             else filter (\<lambda>item. category item = c) (menu_items self));
          available_items = filter available its
      in \<lparr>categories = set (map category available_items), items = available_items\<rparr>)"


text \<open>
  \<^verbatim>\<open>PaymentService\<close> holds a logger and nothing else; its method reads its
  arguments, the clock and the random source. The result is a dictionary, given as the
  list of its entries in the order of the literal.
\<close>

definition process_payment ::
  "env \<Rightarrow> pystr \<Rightarrow> real \<Rightarrow> pystr \<Rightarrow> error + (string \<times> pyvalue) list" where
  "process_payment e oid amount payment_method =
     (let payment_id = str ''PAY-'' @ upper (take 8 (uuid_hex (uuid4 e)));
          is_success = (amount > 0)
      in if is_success
         then Inr [(''payment_id'', PyStr payment_id),
                   (''status'', PyStr (str ''success'')),
                   (''amount'', PyFloat amount),
                   (''payment_method'', PyStr payment_method),
                   (''transaction_time'', PyStr (utcnow_isoformat e))]
         else Inr [(''payment_id'', PyStr payment_id),
                   (''status'', PyStr (str ''failed'')),
                   (''error'', PyStr (str ''Payment processing failed'')),
                   (''transaction_time'', PyStr (utcnow_isoformat e))])"

section \<open>Sequences of calls\<close>

text \<open>
  The public methods of the two services, as calls on one running system: the state is
  the \<^verbatim>\<open>OrderService\<close> object, the only one with data. A call that raises leaves the
  state it had reached.
\<close>

datatype call =
    CreateOrder env OrderRequest
  | GetOrderStatus pystr
  | CancelOrder pystr "pystr option"
  | GetMenu "pystr option"
  | GetOrderHistory pystr
  | ProcessPayment env pystr real pystr

fun step :: "OrderService \<Rightarrow> call \<Rightarrow> OrderService" where
  "step self (CreateOrder e request) = snd (create_order self e request)"
| "step self (GetOrderStatus oid) = self"
| "step self (CancelOrder oid reason) = snd (cancel_order self oid reason)"
| "step self (GetMenu category_arg) = self"
| "step self (GetOrderHistory phone) = self"
| "step self (ProcessPayment e oid amount payment_method) = self"

definition run :: "call list \<Rightarrow> OrderService" where
  "run calls = foldl step OrderService_init calls"

section \<open>Notions of the specification\<close>

text \<open>
  The terms in which the properties below are stated; none of them is part of the
  program.

  The catalog entry a line item refers to is the first menu item with its identifier;
  \<open>catalog_name\<close> is that entry's name, and \<open>prep_contribution\<close> the preparation
  minutes it contributes to the estimate, 0 when there is no such entry.
\<close>

definition catalog_name :: "OrderService \<Rightarrow> int \<Rightarrow> pystr option" where
  "catalog_name self i = map_option MenuItem.name (find (\<lambda>m. id' m = i) (menu_items self))"

definition prep_contribution :: "OrderService \<Rightarrow> OrderItem \<Rightarrow> int" where
  "prep_contribution self item =
     (case find (\<lambda>m. id' m = menu_item_id item) (menu_items self) of
        None \<Rightarrow> 0
      | Some m \<Rightarrow> preparation_minutes m)"


text \<open>A character of an upper-cased hexadecimal numeral: a digit or a letter A to F.\<close>

definition hex_upper :: "nat \<Rightarrow> bool" where
  "hex_upper c \<longleftrightarrow> (48 \<le> c \<and> c \<le> 57) \<or> (65 \<le> c \<and> c \<le> 70)"

section \<open>Example inputs\<close>

definition example_env :: env where
  "example_env =
     \<lparr>now_strftime = str ''20240115'', utcnow = 1705314600,
      utcnow_isoformat = str ''2024-01-15T10:30:00'',
      uuid4 = 0x3f2a9c4e5b6d47a18e9f0a1b2c3d4e5f\<rparr>"

definition example_env2 :: env where
  "example_env2 =
     \<lparr>now_strftime = str ''20240115'', utcnow = 1705314660,
      utcnow_isoformat = str ''2024-01-15T10:31:00'',
      uuid4 = 0x7c01d2e3f4a5b6c7d8e9fa0b1c2d3e4f\<rparr>"

definition margherita :: OrderItem where
  "margherita =
     \<lparr>menu_item_id = 101, OrderItem.name = str ''Margherita'', quantity = 2,
      OrderItem.price = 650, modifiers = []\<rparr>"

definition cola :: OrderItem where
  "cola =
     \<lparr>menu_item_id = 301, OrderItem.name = str ''Cola'', quantity = 1,
      OrderItem.price = 150, modifiers = []\<rparr>"

definition pickup_request :: OrderRequest where
  "pickup_request =
     \<lparr>OrderRequest.customer_name = str ''Ann'',
      OrderRequest.customer_phone = str ''+7 (900) 123-45-67'',
      OrderRequest.items = [margherita],
      OrderRequest.delivery_address = None,
      OrderRequest.is_delivery = False,
      OrderRequest.special_instructions = None\<rparr>"

definition delivery_request :: OrderRequest where
  "delivery_request =
     \<lparr>OrderRequest.customer_name = str ''Bob'',
      OrderRequest.customer_phone = str ''89001234567'',
      OrderRequest.items = [cola, margherita],
      OrderRequest.delivery_address = Some (str ''1 Main Street''),
      OrderRequest.is_delivery = True,
      OrderRequest.special_instructions = None\<rparr>"

definition example_env3 :: env where
  "example_env3 =
     \<lparr>now_strftime = str ''20240115'', utcnow = 1705314720,
      utcnow_isoformat = str ''2024-01-15T10:32:00'',
      uuid4 = 0x0b5e6f708192a3b4c5d6e7f8091a2b3c\<rparr>"

text \<open>A line item under the identifier of a pizza that carries the name of a drink.\<close>

definition mislabelled :: OrderItem where
  "mislabelled =
     \<lparr>menu_item_id = 101, OrderItem.name = str ''Cola'', quantity = 1,
      OrderItem.price = 150, modifiers = []\<rparr>"

definition mislabelled_request :: OrderRequest where
  "mislabelled_request =
     \<lparr>OrderRequest.customer_name = str ''Ann'',
      OrderRequest.customer_phone = str ''+7 (900) 123-45-67'',
      OrderRequest.items = [mislabelled],
      OrderRequest.delivery_address = None,
      OrderRequest.is_delivery = False,
      OrderRequest.special_instructions = None\<rparr>"

text \<open>A line item whose identifier, 999, is not in the menu.\<close>

definition unknown_item :: OrderItem where
  "unknown_item =
     \<lparr>menu_item_id = 999, OrderItem.name = str ''Soup'', quantity = 1,
      OrderItem.price = 100, modifiers = []\<rparr>"

definition unknown_request :: OrderRequest where
  "unknown_request =
     \<lparr>OrderRequest.customer_name = str ''Ann'',
      OrderRequest.customer_phone = str ''+7 (900) 123-45-67'',
      OrderRequest.items = [margherita, unknown_item],
      OrderRequest.delivery_address = None,
      OrderRequest.is_delivery = False,
      OrderRequest.special_instructions = None\<rparr>"



text \<open>
  The orders that \<open>pickup_request\<close> at \<open>example_env\<close>, \<open>delivery_request\<close> at
  \<open>example_env2\<close> and \<open>pickup_request\<close> again at \<open>example_env3\<close> produce.
\<close>

definition pickup_order :: OrderResponse where
  "pickup_order =
     \<lparr>order_id = str ''ORD-20240115-3F2A9C4E'', status = str ''created'',
      total_amount = 1300, discount_amount = 130, final_amount = 1170,
      estimated_minutes = 40, created_at = 1705314600,
      customer_name = str ''Ann'', customer_phone = str ''+7 (900) 123-45-67'',
      items = [margherita], is_delivery = False, delivery_address = None,
      special_instructions = None\<rparr>"

definition delivery_order :: OrderResponse where
  "delivery_order =
     \<lparr>order_id = str ''ORD-20240115-7C01D2E3'', status = str ''created'',
      total_amount = 1650, discount_amount = 165, final_amount = 1485,
      estimated_minutes = 70, created_at = 1705314660,
      customer_name = str ''Bob'', customer_phone = str ''89001234567'',
      items = [cola, margherita], is_delivery = True,
      delivery_address = Some (str ''1 Main Street''),
      special_instructions = None\<rparr>"


definition mislabelled_order :: OrderResponse where
  "mislabelled_order =
     \<lparr>order_id = str ''ORD-20240115-3F2A9C4E'', status = str ''created'',
      total_amount = 150, discount_amount = 0, final_amount = 150,
      estimated_minutes = 40, created_at = 1705314600,
      customer_name = str ''Ann'', customer_phone = str ''+7 (900) 123-45-67'',
      items = [mislabelled], is_delivery = False, delivery_address = None,
      special_instructions = None\<rparr>"


text \<open>A request for delivery that names no address, and the order it produces.\<close>

definition no_address_request :: OrderRequest where
  "no_address_request =
     \<lparr>OrderRequest.customer_name = str ''Bob'',
      OrderRequest.customer_phone = str ''89001234567'',
      OrderRequest.items = [cola, margherita],
      OrderRequest.delivery_address = None,
      OrderRequest.is_delivery = True,
      OrderRequest.special_instructions = None\<rparr>"

definition no_address_order :: OrderResponse where
  "no_address_order =
     \<lparr>order_id = str ''ORD-20240115-7C01D2E3'', status = str ''created'',
      total_amount = 1650, discount_amount = 165, final_amount = 1485,
      estimated_minutes = 70, created_at = 1705314660,
      customer_name = str ''Bob'', customer_phone = str ''89001234567'',
      items = [cola, margherita], is_delivery = True, delivery_address = None,
      special_instructions = None\<rparr>"




text \<open>A store holding one order that an outside worker has moved to \<open>delivered\<close>.\<close>

definition delivered_service :: OrderService where
  "delivered_service =
     OrderService_init\<lparr>orders :=
       [(str ''ORD-20240101-0000AAAA'',
         \<lparr>order_id = str ''ORD-20240101-0000AAAA'', status = str ''delivered'',
          total_amount = 1300, discount_amount = 130, final_amount = 1170,
          estimated_minutes = 40, created_at = 1704103200,
          customer_name = str ''Ann'', customer_phone = str ''+7 (900) 123-45-67'',
          items = [margherita], is_delivery = False, delivery_address = None,
          special_instructions = None\<rparr>)]\<rparr>"

section \<open>The dictionary of orders\<close>

lemma map_of_dict_setitem: "map_of (dict_setitem d k v) = (map_of d)(k \<mapsto> v)"
  by (induction d k v rule: dict_setitem.induct) auto

lemma keys_dict_setitem:
  "map fst (dict_setitem d k v) = (if k \<in> fst ` set d then map fst d else map fst d @ [k])"
  by (induction d k v rule: dict_setitem.induct) auto


lemma set_dict_setitem_subset: "set (dict_setitem d k v) \<subseteq> insert (k, v) (set d)"
  by (induction d k v rule: dict_setitem.induct) auto

lemma distinct_dict_setitem:
  "distinct (map fst d) \<Longrightarrow> distinct (map fst (dict_setitem d k v))"
  by (simp add: keys_dict_setitem)

section \<open>What no call changes\<close>

lemma run_snoc: "run (calls @ [c]) = step (run calls) c"
  by (simp add: run_def)

lemma run_Nil: "run [] = OrderService_init"
  by (simp add: run_def)

lemma create_order_config:
  "delivery_fee (snd (create_order self e r)) = delivery_fee self
   \<and> discount_threshold (snd (create_order self e r)) = discount_threshold self
   \<and> discount_percent (snd (create_order self e r)) = discount_percent self
   \<and> menu_items (snd (create_order self e r)) = menu_items self"
  by (simp add: create_order_def schedule_status_updates_def Let_def split: sum.splits)

lemma cancel_order_config:
  "delivery_fee (snd (cancel_order self k r)) = delivery_fee self
   \<and> discount_threshold (snd (cancel_order self k r)) = discount_threshold self
   \<and> discount_percent (snd (cancel_order self k r)) = discount_percent self
   \<and> menu_items (snd (cancel_order self k r)) = menu_items self"
  by (simp add: cancel_order_def split: option.splits)

lemma step_config:
  "delivery_fee (step self c) = delivery_fee self
   \<and> discount_threshold (step self c) = discount_threshold self
   \<and> discount_percent (step self c) = discount_percent self
   \<and> menu_items (step self c) = menu_items self"
  by (cases c) (simp_all add: create_order_config cancel_order_config)

lemma run_config:
  "delivery_fee (run calls) = 200 \<and> discount_threshold (run calls) = 1000
   \<and> discount_percent (run calls) = 10
   \<and> menu_items (run calls) = menu_items OrderService_init"
proof (induction calls rule: rev_induct)
  case Nil
  show ?case by (simp add: run_Nil OrderService_init_def)
next
  case (snoc c calls)
  then show ?case by (simp add: run_snoc step_config)
qed

section \<open>The examples, evaluated\<close>

lemma length_uuid_hex: "length (uuid_hex u) = 32"
  by (simp add: uuid_hex_def)

lemma take8_uuid_str: "take 8 (uuid_str u) = take 8 (uuid_hex u)"
  by (simp add: uuid_str_def Let_def length_uuid_hex)

lemma take8_uuid_hex:
  "take 8 (uuid_hex u) = map (\<lambda>i. hex_digit ((u div 16 ^ (31 - i)) mod 16)) [0..<8]"
  by (simp add: uuid_hex_def take_map)

lemma upt8: "[0..<8] = [0, 1, 2, 3, 4, 5, 6, 7]"
  by (simp add: upt_rec [of _ "numeral _"] upt_rec [of 0])

lemma gen_id: "generate_order_id example_env = str ''ORD-20240115-3F2A9C4E''"
  by (simp add: generate_order_id_def example_env_def take8_uuid_str take8_uuid_hex upt8
      upper_def upper_char_def hex_digit_def str_def)

lemma gen_id2: "generate_order_id example_env2 = str ''ORD-20240115-7C01D2E3''"
  by (simp add: generate_order_id_def example_env2_def take8_uuid_str take8_uuid_hex upt8
      upper_def upper_char_def hex_digit_def str_def)

lemma example_env_fields:
  "utcnow example_env = 1705314600" "utcnow example_env2 = 1705314660"
  "utcnow example_env3 = 1705314720"
  by (simp_all add: example_env_def example_env2_def example_env3_def)


lemma menu_ids: "set (map id' (menu_items OrderService_init)) = {101, 102, 201, 301, 302, 401}"
  by (auto simp: OrderService_init_def)

lemma run1:
  "run [CreateOrder example_env pickup_request] =
     OrderService_init\<lparr>orders := [(str ''ORD-20240115-3F2A9C4E'', pickup_order)]\<rparr>"
  by (simp add: run_def create_order_def menu_ids pickup_request_def margherita_def gen_id
      Let_def schedule_status_updates_def calculate_items_total_def calculate_discount_def
      calculate_estimated_time_def py_round_def round_half_even_def OrderService_init_def
      example_env_fields pickup_order_def)

section \<open>Cancellation\<close>

lemma cancel_order_fst:
  "fst (cancel_order self oid reason) \<longleftrightarrow>
     (\<exists>ord. get_order_status self oid = Some ord
        \<and> (status ord = str ''created'' \<or> status ord = str ''processing''))"
  by (auto simp: cancel_order_def get_order_status_def split: option.splits)

lemma cancel_order_false:
  "\<not> fst (cancel_order self oid reason) \<Longrightarrow> snd (cancel_order self oid reason) = self"
  by (auto simp: cancel_order_def split: option.splits if_splits)

lemma cancel_order_true:
  "fst (cancel_order self oid reason) \<Longrightarrow>
     \<exists>ord. get_order_status self oid = Some ord \<and>
       snd (cancel_order self oid reason) =
         self\<lparr>orders := dict_setitem (orders self) oid (ord\<lparr>status := str ''cancelled''\<rparr>)\<rparr>"
  by (auto simp: cancel_order_def get_order_status_def split: option.splits if_splits)

lemma status_literals:
  "str ''cancelled'' \<noteq> str ''created''" "str ''cancelled'' \<noteq> str ''processing''"
  "str ''delivered'' \<noteq> str ''created''" "str ''delivered'' \<noteq> str ''processing''"
  by (simp_all add: str_def)

text \<open>
  C2. \<^verbatim>\<open>cancel_order\<close> returns \<open>True\<close> exactly when the order exists with status
  \<open>created\<close> or \<open>processing\<close>. When it returns \<open>True\<close> the order's status is
  \<open>cancelled\<close> afterwards, its other fields, every other order, the order of the
  dictionary and the rest of the service are as before, and a second cancellation of the
  same order returns \<open>False\<close>. When it returns \<open>False\<close>, which includes an identifier
  the store does not hold, the service is unchanged. A \<open>delivered\<close> order is never
  cancelled.
\<close>

theorem cancel_order_spec:
  "(fst (cancel_order self oid reason) \<longleftrightarrow>
      (\<exists>ord. get_order_status self oid = Some ord
         \<and> status ord \<in> {str ''created'', str ''processing''}))
   \<and> (fst (cancel_order self oid reason) \<longrightarrow>
         (\<exists>ord. get_order_status self oid = Some ord
            \<and> get_order_status (snd (cancel_order self oid reason)) oid
                = Some (ord\<lparr>status := str ''cancelled''\<rparr>))
         \<and> (\<forall>k. k \<noteq> oid \<longrightarrow>
               get_order_status (snd (cancel_order self oid reason)) k = get_order_status self k)
         \<and> map fst (orders (snd (cancel_order self oid reason))) = map fst (orders self)
         \<and> (snd (cancel_order self oid reason))\<lparr>orders := orders self\<rparr> = self
         \<and> \<not> fst (cancel_order (snd (cancel_order self oid reason)) oid reason'))
   \<and> (\<not> fst (cancel_order self oid reason) \<longrightarrow> snd (cancel_order self oid reason) = self)
   \<and> ((\<exists>ord. get_order_status self oid = Some ord \<and> status ord = str ''delivered'')
         \<longrightarrow> \<not> fst (cancel_order self oid reason))"
proof (intro conjI impI)
  show "fst (cancel_order self oid reason) \<longleftrightarrow>
      (\<exists>ord. get_order_status self oid = Some ord
         \<and> status ord \<in> {str ''created'', str ''processing''})"
    by (simp add: cancel_order_fst)
next
  assume ok: "fst (cancel_order self oid reason)"
  from cancel_order_true [OF ok] obtain ord where
    ord: "get_order_status self oid = Some ord" and
    s': "snd (cancel_order self oid reason) =
         self\<lparr>orders := dict_setitem (orders self) oid (ord\<lparr>status := str ''cancelled''\<rparr>)\<rparr>"
    by blast
  have key: "oid \<in> fst ` set (orders self)"
    using ord by (auto simp: get_order_status_def dest!: map_of_SomeD intro: rev_image_eqI)
  show "\<exists>ord. get_order_status self oid = Some ord
            \<and> get_order_status (snd (cancel_order self oid reason)) oid
                = Some (ord\<lparr>status := str ''cancelled''\<rparr>)"
    using ord by (simp add: s' get_order_status_def map_of_dict_setitem)
  show "\<forall>k. k \<noteq> oid \<longrightarrow>
          get_order_status (snd (cancel_order self oid reason)) k = get_order_status self k"
    by (simp add: s' get_order_status_def map_of_dict_setitem)
  show "map fst (orders (snd (cancel_order self oid reason))) = map fst (orders self)"
    using key by (simp add: s' keys_dict_setitem)
  show "(snd (cancel_order self oid reason))\<lparr>orders := orders self\<rparr> = self"
    by (simp add: s')
  show "\<not> fst (cancel_order (snd (cancel_order self oid reason)) oid reason')"
    by (simp add: cancel_order_fst s' get_order_status_def map_of_dict_setitem status_literals)
next
  assume "\<not> fst (cancel_order self oid reason)"
  then show "snd (cancel_order self oid reason) = self"
    by (rule cancel_order_false)
next
  assume "\<exists>ord. get_order_status self oid = Some ord \<and> status ord = str ''delivered''"
  then show "\<not> fst (cancel_order self oid reason)"
    by (auto simp: cancel_order_fst status_literals)
qed

lemma created: "fst (cancel_order (run [CreateOrder example_env pickup_request])
          (str ''ORD-20240115-3F2A9C4E'') None)"
  by (simp add: run1 cancel_order_fst get_order_status_def pickup_order_def)

lemma unknown: "\<not> fst (cancel_order (run [CreateOrder example_env pickup_request])
          (str ''ORD-20240115-00000000'') None)"
  by (simp add: run1 cancel_order_fst get_order_status_def str_def)

lemma delivered: "\<exists>ord. get_order_status delivered_service (str ''ORD-20240101-0000AAAA'')
          = Some ord \<and> status ord = str ''delivered''"
  by (simp add: get_order_status_def delivered_service_def)

text \<open>
  The order created by the example request is cancelled once and not twice; an unknown
  identifier changes nothing; the delivered order stays delivered.
\<close>

theorem cancel_order_spec_witness:
  "fst (cancel_order (run [CreateOrder example_env pickup_request])
          (str ''ORD-20240115-3F2A9C4E'') None)
   \<and> \<not> fst (cancel_order
          (snd (cancel_order (run [CreateOrder example_env pickup_request])
                  (str ''ORD-20240115-3F2A9C4E'') None))
          (str ''ORD-20240115-3F2A9C4E'') None)
   \<and> \<not> fst (cancel_order (run [CreateOrder example_env pickup_request])
          (str ''ORD-20240115-00000000'') None)
   \<and> snd (cancel_order (run [CreateOrder example_env pickup_request])
          (str ''ORD-20240115-00000000'') None)
       = run [CreateOrder example_env pickup_request]
   \<and> \<not> fst (cancel_order delivered_service (str ''ORD-20240101-0000AAAA'') None)"
  using created unknown delivered
      cancel_order_spec [of "run [CreateOrder example_env pickup_request]"
        "str ''ORD-20240115-3F2A9C4E''" None None]
      cancel_order_spec [of "run [CreateOrder example_env pickup_request]"
        "str ''ORD-20240115-00000000''" None None]
      cancel_order_spec [of delivered_service "str ''ORD-20240101-0000AAAA''" None None]
  by blast

section \<open>Creating an order\<close>

lemma validate_menu_items_result:
  "validate_menu_items self its = Inr ()
   \<or> (\<exists>i. validate_menu_items self its = Inl (ValueError (MenuItemAbsent i)))"
  by (induction its) simp_all

lemma create_order_Inl:
  "validate_menu_items self (OrderRequest.items r) = Inl err \<Longrightarrow>
   create_order self e r = (Inl err, self)"
  by (simp add: create_order_def)

lemma create_order_Inr:
  assumes "validate_menu_items self (OrderRequest.items r) = Inr ()"
  shows "\<exists>response.
     create_order self e r =
       (Inr response,
        self\<lparr>orders := dict_setitem (orders self) (generate_order_id e) response\<rparr>)
     \<and> order_id response = generate_order_id e
     \<and> status response = str ''created''
     \<and> total_amount response =
         py_round (calculate_items_total self (OrderRequest.items r)
           + (if OrderRequest.is_delivery r then delivery_fee self else 0)) 2
     \<and> discount_amount response =
         py_round (calculate_discount self (calculate_items_total self (OrderRequest.items r)
           + (if OrderRequest.is_delivery r then delivery_fee self else 0))) 2
     \<and> final_amount response =
         py_round (calculate_items_total self (OrderRequest.items r)
           + (if OrderRequest.is_delivery r then delivery_fee self else 0)
           - calculate_discount self (calculate_items_total self (OrderRequest.items r)
               + (if OrderRequest.is_delivery r then delivery_fee self else 0))) 2
     \<and> estimated_minutes response = calculate_estimated_time self r
     \<and> created_at response = utcnow e
     \<and> OrderResponse.customer_name response = OrderRequest.customer_name r
     \<and> OrderResponse.customer_phone response = OrderRequest.customer_phone r
     \<and> OrderResponse.items response = OrderRequest.items r
     \<and> OrderResponse.is_delivery response = OrderRequest.is_delivery r
     \<and> OrderResponse.delivery_address response = OrderRequest.delivery_address r
     \<and> OrderResponse.special_instructions response = OrderRequest.special_instructions r"
  by (simp add: create_order_def assms Let_def schedule_status_updates_def)

lemma create_order_eq:
  assumes "validate_menu_items self (OrderRequest.items r) = Inr ()"
  shows "create_order self e r =
     (Inr \<lparr>order_id = generate_order_id e,
            status = str ''created'',
            total_amount =
              py_round (calculate_items_total self (OrderRequest.items r)
                + (if OrderRequest.is_delivery r then delivery_fee self else 0)) 2,
            discount_amount =
              py_round (calculate_discount self
                (calculate_items_total self (OrderRequest.items r)
                  + (if OrderRequest.is_delivery r then delivery_fee self else 0))) 2,
            final_amount =
              py_round (calculate_items_total self (OrderRequest.items r)
                + (if OrderRequest.is_delivery r then delivery_fee self else 0)
                - calculate_discount self
                    (calculate_items_total self (OrderRequest.items r)
                      + (if OrderRequest.is_delivery r then delivery_fee self else 0))) 2,
            estimated_minutes = calculate_estimated_time self r,
            created_at = utcnow e,
            customer_name = OrderRequest.customer_name r,
            customer_phone = OrderRequest.customer_phone r,
            items = OrderRequest.items r,
            is_delivery = OrderRequest.is_delivery r,
            delivery_address = OrderRequest.delivery_address r,
            special_instructions = OrderRequest.special_instructions r\<rparr>,
      self\<lparr>orders := dict_setitem (orders self) (generate_order_id e)
        \<lparr>order_id = generate_order_id e,
            status = str ''created'',
            total_amount =
              py_round (calculate_items_total self (OrderRequest.items r)
                + (if OrderRequest.is_delivery r then delivery_fee self else 0)) 2,
            discount_amount =
              py_round (calculate_discount self
                (calculate_items_total self (OrderRequest.items r)
                  + (if OrderRequest.is_delivery r then delivery_fee self else 0))) 2,
            final_amount =
              py_round (calculate_items_total self (OrderRequest.items r)
                + (if OrderRequest.is_delivery r then delivery_fee self else 0)
                - calculate_discount self
                    (calculate_items_total self (OrderRequest.items r)
                      + (if OrderRequest.is_delivery r then delivery_fee self else 0))) 2,
            estimated_minutes = calculate_estimated_time self r,
            created_at = utcnow e,
            customer_name = OrderRequest.customer_name r,
            customer_phone = OrderRequest.customer_phone r,
            items = OrderRequest.items r,
            is_delivery = OrderRequest.is_delivery r,
            delivery_address = OrderRequest.delivery_address r,
            special_instructions = OrderRequest.special_instructions r\<rparr>\<rparr>)"
  by (simp add: create_order_def assms Let_def schedule_status_updates_def)

lemma create_order_Inr_iff:
  "(\<exists>response self'. create_order self e r = (Inr response, self'))
   \<longleftrightarrow> validate_menu_items self (OrderRequest.items r) = Inr ()"
proof
  assume "\<exists>response self'. create_order self e r = (Inr response, self')"
  with validate_menu_items_result [of self "OrderRequest.items r"]
  show "validate_menu_items self (OrderRequest.items r) = Inr ()"
    by (auto simp: create_order_Inl)
next
  assume "validate_menu_items self (OrderRequest.items r) = Inr ()"
  from create_order_Inr [OF this, of e]
  show "\<exists>response self'. create_order self e r = (Inr response, self')"
    by blast
qed

lemma validate_menu_items_absent:
  "\<exists>item \<in> set its. menu_item_id item \<notin> set (map id' (menu_items self)) \<Longrightarrow>
   \<exists>i. i \<in> menu_item_id ` set its \<and> i \<notin> set (map id' (menu_items self))
      \<and> validate_menu_items self its = Inl (ValueError (MenuItemAbsent i))"
proof (induction its)
  case Nil
  then show ?case by simp
next
  case (Cons a its)
  show ?case
  proof (cases "menu_item_id a \<in> set (map id' (menu_items self))")
    case True
    with Cons.prems have "\<exists>item \<in> set its. menu_item_id item \<notin> set (map id' (menu_items self))"
      by auto
    from Cons.IH [OF this] True show ?thesis by auto
  next
    case False
    then show ?thesis by auto
  qed
qed

lemma validate_menu_items_ok:
  "validate_menu_items self its = Inr () \<longleftrightarrow>
   (\<forall>item \<in> set its. menu_item_id item \<in> set (map id' (menu_items self)))"
  by (induction its) simp_all

lemma validate_menu_items_ids:
  "map menu_item_id its' = map menu_item_id its \<Longrightarrow>
   validate_menu_items self its' = validate_menu_items self its"
proof (induction its arbitrary: its')
  case Nil
  then show ?case by simp
next
  case (Cons a its)
  then obtain b bs where its': "its' = b # bs"
    and b: "menu_item_id b = menu_item_id a"
    and bs: "map menu_item_id bs = map menu_item_id its"
    by (cases its') auto
  from Cons.IH [OF bs] show ?case by (simp add: its' b)
qed


lemma create_order_orders:
  "orders (snd (create_order self e r)) = orders self
   \<or> (\<exists>response. status response = str ''created''
         \<and> fst (create_order self e r) = Inr response
         \<and> orders (snd (create_order self e r))
             = dict_setitem (orders self) (generate_order_id e) response)"
  by (simp add: create_order_def schedule_status_updates_def Let_def split: sum.splits)

lemma cancel_order_orders:
  "orders (snd (cancel_order self k r)) = orders self
   \<or> (\<exists>ord. map_of (orders self) k = Some ord
         \<and> orders (snd (cancel_order self k r))
             = dict_setitem (orders self) k (ord\<lparr>status := str ''cancelled''\<rparr>))"
  by (simp add: cancel_order_def split: option.splits)

lemma in_dict_setitem:
  "p \<in> set (dict_setitem d k v) \<Longrightarrow> p = (k, v) \<or> p \<in> set d"
  using set_dict_setitem_subset [of d k v] by auto

lemma step_orders_status:
  assumes inv: "\<forall>p \<in> set (orders self).
      status (snd p) = str ''created'' \<or> status (snd p) = str ''cancelled''"
  shows "\<forall>p \<in> set (orders (step self c)).
      status (snd p) = str ''created'' \<or> status (snd p) = str ''cancelled''"
proof (cases c)
  case (CreateOrder e r)
  from create_order_orders [of self e r] show ?thesis
  proof
    assume "orders (snd (create_order self e r)) = orders self"
    with inv show ?thesis by (simp add: CreateOrder)
  next
    assume "\<exists>response. status response = str ''created''
         \<and> fst (create_order self e r) = Inr response
         \<and> orders (snd (create_order self e r))
             = dict_setitem (orders self) (generate_order_id e) response"
    then obtain response where "status response = str ''created''"
      and "orders (snd (create_order self e r))
             = dict_setitem (orders self) (generate_order_id e) response"
      by blast
    with inv show ?thesis
      by (auto simp: CreateOrder dest!: in_dict_setitem)
  qed
next
  case (CancelOrder k r)
  from cancel_order_orders [of self k r] show ?thesis
  proof
    assume "orders (snd (cancel_order self k r)) = orders self"
    with inv show ?thesis by (simp add: CancelOrder)
  next
    assume "\<exists>ord. map_of (orders self) k = Some ord
         \<and> orders (snd (cancel_order self k r))
             = dict_setitem (orders self) k (ord\<lparr>status := str ''cancelled''\<rparr>)"
    then obtain ord where
      "orders (snd (cancel_order self k r))
             = dict_setitem (orders self) k (ord\<lparr>status := str ''cancelled''\<rparr>)"
      by blast
    with inv show ?thesis
      by (auto simp: CancelOrder dest!: in_dict_setitem)
  qed
qed (use inv in simp_all)

section \<open>More of the examples, evaluated\<close>

lemma ids_distinct:
  "str ''ORD-20240115-3F2A9C4E'' \<noteq> str ''ORD-20240115-7C01D2E3''"
  "str ''ORD-20240115-3F2A9C4E'' \<noteq> str ''ORD-20240115-0B5E6F70''"
  "str ''ORD-20240115-7C01D2E3'' \<noteq> str ''ORD-20240115-0B5E6F70''"
  by (simp_all add: str_def)

lemma menu_ids_image:
  "id' ` set (menu_items OrderService_init) = {101, 102, 201, 301, 302, 401}"
  using menu_ids by simp

lemma validate_examples:
  "validate_menu_items (OrderService_init\<lparr>orders := d\<rparr>) (OrderRequest.items pickup_request) = Inr ()"
  "validate_menu_items (OrderService_init\<lparr>orders := d\<rparr>) (OrderRequest.items delivery_request) = Inr ()"
  by (simp_all add: menu_ids_image pickup_request_def delivery_request_def margherita_def cola_def)

lemma totals_examples:
  "calculate_items_total self [margherita] = 1300"
  "calculate_items_total self [cola, margherita] = 1450"
  by (simp_all add: calculate_items_total_def margherita_def cola_def)

lemma py_round_examples:
  "py_round 1300 2 = 1300" "py_round 130 2 = 130" "py_round 1170 2 = 1170"
  "py_round 1650 2 = 1650" "py_round 165 2 = 165" "py_round 1485 2 = 1485"
  by (simp_all add: py_round_def round_half_even_def)

lemma minutes_examples:
  "calculate_estimated_time (OrderService_init\<lparr>orders := d\<rparr>) pickup_request = 40"
  "calculate_estimated_time (OrderService_init\<lparr>orders := d\<rparr>) delivery_request = 70"
  by (simp_all add: calculate_estimated_time_def OrderService_init_def pickup_request_def
      delivery_request_def margherita_def cola_def)

lemma request_fields:
  "OrderRequest.customer_name pickup_request = str ''Ann''"
  "OrderRequest.customer_phone pickup_request = str ''+7 (900) 123-45-67''"
  "OrderRequest.items pickup_request = [margherita]"
  "OrderRequest.is_delivery pickup_request = False"
  "OrderRequest.delivery_address pickup_request = None"
  "OrderRequest.special_instructions pickup_request = None"
  "OrderRequest.customer_name delivery_request = str ''Bob''"
  "OrderRequest.customer_phone delivery_request = str ''89001234567''"
  "OrderRequest.items delivery_request = [cola, margherita]"
  "OrderRequest.is_delivery delivery_request = True"
  "OrderRequest.delivery_address delivery_request = Some (str ''1 Main Street'')"
  "OrderRequest.special_instructions delivery_request = None"
  by (simp_all add: pickup_request_def delivery_request_def)

lemma init_fields:
  "delivery_fee OrderService_init = 200" "discount_threshold OrderService_init = 1000"
  "discount_percent OrderService_init = 10" "orders OrderService_init = []"
  by (simp_all add: OrderService_init_def)

lemma create2:
  "create_order (OrderService_init\<lparr>orders := [(str ''ORD-20240115-3F2A9C4E'', pickup_order)]\<rparr>)
     example_env2 delivery_request =
   (Inr delivery_order,
    OrderService_init\<lparr>orders := [(str ''ORD-20240115-3F2A9C4E'', pickup_order),
                                  (str ''ORD-20240115-7C01D2E3'', delivery_order)]\<rparr>)"
  by (simp add: create_order_eq [OF validate_examples(2)] totals_examples request_fields
      gen_id2 minutes_examples calculate_discount_def init_fields py_round_examples
      example_env_fields ids_distinct delivery_order_def)


lemma run_two: "run [a, b] = step (run [a]) b"
  by (simp add: run_def)

lemma run_three: "run [a, b, c] = step (run [a, b]) c"
  by (simp add: run_def)

lemma run12:
  "run [CreateOrder example_env pickup_request, CreateOrder example_env2 delivery_request] =
     OrderService_init\<lparr>orders := [(str ''ORD-20240115-3F2A9C4E'', pickup_order),
                                   (str ''ORD-20240115-7C01D2E3'', delivery_order)]\<rparr>"
  by (simp add: run_two run1 create2)


section \<open>Unknown menu items\<close>

text \<open>
  C4. If a line item of the request has an identifier that no menu item has,
  \<^verbatim>\<open>create_order\<close> raises the \<open>ValueError\<close> of \<^verbatim>\<open>_validate_menu_items\<close> for such an
  identifier (the exception by which this code rejects an invalid request) and the
  service, the dictionary of orders included, is unchanged. No price enters the outcome:
  any request with the same identifiers in its line items, at any prices, quantities and
  flags, has the same outcome.
\<close>

theorem create_order_unknown_item:
  assumes "\<exists>item \<in> set (OrderRequest.items request).
             menu_item_id item \<notin> set (map id' (menu_items self))"
  shows "(\<exists>i. i \<in> menu_item_id ` set (OrderRequest.items request)
            \<and> i \<notin> set (map id' (menu_items self))
            \<and> create_order self e request = (Inl (ValueError (MenuItemAbsent i)), self))
         \<and> (\<forall>e' request'.
               map menu_item_id (OrderRequest.items request')
                 = map menu_item_id (OrderRequest.items request) \<longrightarrow>
               create_order self e' request' = create_order self e request)"
proof -
  from validate_menu_items_absent [OF assms] obtain i where
    i: "i \<in> menu_item_id ` set (OrderRequest.items request)"
       "i \<notin> set (map id' (menu_items self))"
    and v: "validate_menu_items self (OrderRequest.items request)
              = Inl (ValueError (MenuItemAbsent i))"
    by blast
  have a: "create_order self e request = (Inl (ValueError (MenuItemAbsent i)), self)"
    by (rule create_order_Inl [OF v])
  have b: "create_order self e' request' = create_order self e request"
    if "map menu_item_id (OrderRequest.items request')
          = map menu_item_id (OrderRequest.items request)" for e' request'
  proof -
    from validate_menu_items_ids [OF that, of self] v
    have "validate_menu_items self (OrderRequest.items request')
            = Inl (ValueError (MenuItemAbsent i))" by simp
    from create_order_Inl [OF this] a show ?thesis by simp
  qed
  from i a b show ?thesis by blast
qed

text \<open>The request with the identifier 999 is refused for 999 and nothing is stored.\<close>

theorem create_order_unknown_item_witness:
  "create_order OrderService_init example_env unknown_request
     = (Inl (ValueError (MenuItemAbsent 999)), OrderService_init)"
proof -
  have absent: "\<exists>item \<in> set (OrderRequest.items unknown_request).
      menu_item_id item \<notin> set (map id' (menu_items OrderService_init))"
    by (simp add: menu_ids_image unknown_request_def unknown_item_def margherita_def)
  have ids: "menu_item_id ` set (OrderRequest.items unknown_request) = {101, 999}"
    by (simp add: unknown_request_def unknown_item_def margherita_def)
  from create_order_unknown_item [OF absent, of example_env] obtain i where
    "i \<in> menu_item_id ` set (OrderRequest.items unknown_request)"
    "i \<notin> set (map id' (menu_items OrderService_init))"
    "create_order OrderService_init example_env unknown_request
       = (Inl (ValueError (MenuItemAbsent i)), OrderService_init)"
    by blast
  then show ?thesis
    by (auto simp: ids menu_ids_image)
qed

section \<open>Order history\<close>








section \<open>Reachable statuses\<close>

text \<open>
  C10. After any sequence of calls of the public methods, starting from a new service,
  every stored order has the status \<open>created\<close> or \<open>cancelled\<close>:
  \<^verbatim>\<open>create_order\<close> stores \<open>created\<close>, \<^verbatim>\<open>_schedule_status_updates\<close> does nothing,
  \<^verbatim>\<open>cancel_order\<close> stores \<open>cancelled\<close>, and no other method writes.
\<close>

theorem reachable_status:
  "\<forall>ord \<in> set (dict_values (orders (run calls))).
     status ord = str ''created'' \<or> status ord = str ''cancelled''"
proof -
  have "\<forall>p \<in> set (orders (run calls)).
      status (snd p) = str ''created'' \<or> status (snd p) = str ''cancelled''"
  proof (induction calls rule: rev_induct)
    case Nil
    show ?case by (simp add: run_Nil OrderService_init_def)
  next
    case (snoc c calls)
    then show ?case
      unfolding run_snoc by (rule step_orders_status)
  qed
  then show ?thesis by (simp add: dict_values_def)
qed

text \<open>Two orders created and the first cancelled: one of each status.\<close>

theorem reachable_status_witness:
  "delivery_order \<in> set (dict_values (orders
      (run [CreateOrder example_env pickup_request, CreateOrder example_env2 delivery_request,
            CancelOrder (str ''ORD-20240115-3F2A9C4E'') None])))
   \<and> (status delivery_order = str ''created'' \<or> status delivery_order = str ''cancelled'')
   \<and> map status (dict_values (orders
      (run [CreateOrder example_env pickup_request, CreateOrder example_env2 delivery_request,
            CancelOrder (str ''ORD-20240115-3F2A9C4E'') None])))
       = [str ''cancelled'', str ''created'']"
proof -
  have run_eval: "dict_values (orders
      (run [CreateOrder example_env pickup_request, CreateOrder example_env2 delivery_request,
            CancelOrder (str ''ORD-20240115-3F2A9C4E'') None]))
     = [pickup_order\<lparr>status := str ''cancelled''\<rparr>, delivery_order]"
    by (simp add: run_three run12 cancel_order_def dict_values_def pickup_order_def)
  have "status delivery_order = str ''created''"
    by (simp add: delivery_order_def)
  with run_eval
    reachable_status [of "[CreateOrder example_env pickup_request,
      CreateOrder example_env2 delivery_request,
      CancelOrder (str ''ORD-20240115-3F2A9C4E'') None]"]
  show ?thesis by simp
qed

lemma create1:
  "create_order OrderService_init example_env pickup_request =
   (Inr pickup_order,
    OrderService_init\<lparr>orders := [(str ''ORD-20240115-3F2A9C4E'', pickup_order)]\<rparr>)"
  by (simp add: create_order_def menu_ids pickup_request_def margherita_def gen_id
      Let_def schedule_status_updates_def calculate_items_total_def calculate_discount_def
      calculate_estimated_time_def py_round_def round_half_even_def OrderService_init_def
      example_env_fields pickup_order_def)

lemma find_in_set: "find P xs = Some x \<Longrightarrow> x \<in> set xs"
  by (induction xs) (auto split: if_splits)

lemma menu_prep_nonneg: "\<forall>m \<in> set (menu_items OrderService_init). 0 \<le> preparation_minutes m"
  by (simp add: OrderService_init_def)

lemma prep_contribution_nonneg: "0 \<le> prep_contribution (run calls) item"
proof (cases "find (\<lambda>m. id' m = menu_item_id item) (menu_items (run calls))")
  case None
  then show ?thesis by (simp add: prep_contribution_def)
next
  case (Some m)
  then have "m \<in> set (menu_items OrderService_init)"
    using find_in_set run_config [of calls] by fastforce
  with menu_prep_nonneg Some show ?thesis by (simp add: prep_contribution_def)
qed

lemma Max_insert_max:
  "finite S \<Longrightarrow> Max (insert (max a b) S) = Max (insert a (insert b S))"
  by (cases "S = {}") (simp_all add: max.assoc)

lemma items_time_loop:
  assumes "0 \<le> a" and "\<forall>x \<in> set xs. 0 \<le> prep_contribution self x"
  shows "foldl (\<lambda>items_time order_item.
            case find (\<lambda>m. id' m = menu_item_id order_item) (menu_items self) of
              None \<Rightarrow> items_time
            | Some menu_item \<Rightarrow> max items_time (preparation_minutes menu_item)) a xs
         = Max (insert a (prep_contribution self ` set xs))"
  using assms
proof (induction xs arbitrary: a)
  case Nil
  then show ?case by simp
next
  case (Cons x xs)
  have step: "(case find (\<lambda>m. id' m = menu_item_id x) (menu_items self) of
                 None \<Rightarrow> a
               | Some menu_item \<Rightarrow> max a (preparation_minutes menu_item))
              = max a (prep_contribution self x)"
    using Cons.prems(1) by (simp add: prep_contribution_def split: option.splits)
  have "0 \<le> max a (prep_contribution self x)"
    using Cons.prems(1) by simp
  from Cons.IH [OF this] Cons.prems(2) show ?case
    by (simp add: step Max_insert_max)
qed

lemma estimated_time_menu:
  "menu_items s1 = menu_items s2 \<Longrightarrow> OrderRequest.items r1 = OrderRequest.items r2 \<Longrightarrow>
   OrderRequest.is_delivery r1 = OrderRequest.is_delivery r2 \<Longrightarrow>
   calculate_estimated_time s1 r1 = calculate_estimated_time s2 r2"
  by (simp add: calculate_estimated_time_def)

section \<open>Estimated time\<close>

text \<open>
  C3. In every state the service reaches, the estimate for a request with at least one
  line item is 15, plus the largest preparation time among the menu entries its line
  items refer to (a missing entry counting 0), plus 5 for every line item after the
  first, plus 25 for a delivery. It depends on nothing but the line items and the
  delivery flag: two requests that agree on them get the same estimate in any two
  states. It is the estimate that \<^verbatim>\<open>create_order\<close> puts in the order.
\<close>

theorem estimated_time_spec:
  "(OrderRequest.items request \<noteq> [] \<longrightarrow>
      calculate_estimated_time (run calls) request =
        15 + Max (prep_contribution (run calls) ` set (OrderRequest.items request))
           + 5 * max 0 (int (length (OrderRequest.items request)) - 1)
           + (if OrderRequest.is_delivery request then 25 else 0))
   \<and> (\<forall>calls' request'.
         OrderRequest.items request' = OrderRequest.items request
         \<and> OrderRequest.is_delivery request' = OrderRequest.is_delivery request \<longrightarrow>
         calculate_estimated_time (run calls') request'
           = calculate_estimated_time (run calls) request)
   \<and> (\<forall>e response self'.
         create_order (run calls) e request = (Inr response, self') \<longrightarrow>
         estimated_minutes response = calculate_estimated_time (run calls) request)"
proof (intro conjI allI impI)
  assume nonempty: "OrderRequest.items request \<noteq> []"
  let ?S = "prep_contribution (run calls) ` set (OrderRequest.items request)"
  have fin: "finite ?S" and ne: "?S \<noteq> {}"
    using nonempty by simp_all
  have "\<forall>c \<in> ?S. 0 \<le> c"
    using prep_contribution_nonneg by auto
  then have "0 \<le> Max ?S"
    using fin ne by (meson Max_in)
  then have "Max (insert 0 ?S) = Max ?S"
    using fin ne by (simp add: max_absorb2)
  moreover have "foldl (\<lambda>items_time order_item.
            case find (\<lambda>m. id' m = menu_item_id order_item) (menu_items (run calls)) of
              None \<Rightarrow> items_time
            | Some menu_item \<Rightarrow> max items_time (preparation_minutes menu_item)) 0
          (OrderRequest.items request) = Max (insert 0 ?S)"
    by (rule items_time_loop) (simp_all add: prep_contribution_nonneg)
  ultimately show "calculate_estimated_time (run calls) request =
        15 + Max ?S + 5 * max 0 (int (length (OrderRequest.items request)) - 1)
           + (if OrderRequest.is_delivery request then 25 else 0)"
    by (simp add: calculate_estimated_time_def)
next
  fix calls' :: "call list" and request' :: OrderRequest
  assume "OrderRequest.items request' = OrderRequest.items request
         \<and> OrderRequest.is_delivery request' = OrderRequest.is_delivery request"
  then show "calculate_estimated_time (run calls') request'
           = calculate_estimated_time (run calls) request"
    using run_config [of calls] run_config [of calls']
    by (intro estimated_time_menu) simp_all
next
  fix e :: env and response :: OrderResponse and self' :: OrderService
  assume ok: "create_order (run calls) e request = (Inr response, self')"
  then have "validate_menu_items (run calls) (OrderRequest.items request) = Inr ()"
    using create_order_Inr_iff [of "run calls" e request] by blast
  from create_order_Inr [OF this, of e] ok
  show "estimated_minutes response = calculate_estimated_time (run calls) request"
    by auto
qed

text \<open>
  One pizza of 25 minutes for pickup: 15 + 25 + 0 + 0 = 40 minutes, also for another
  customer later, and 40 is in the order.
\<close>

theorem estimated_time_spec_witness:
  "OrderRequest.items pickup_request \<noteq> []
   \<and> Max (prep_contribution (run []) ` set (OrderRequest.items pickup_request)) = 25
   \<and> calculate_estimated_time (run []) pickup_request = 40
   \<and> calculate_estimated_time (run [CreateOrder example_env pickup_request])
         (pickup_request\<lparr>OrderRequest.customer_name := str ''Bob''\<rparr>) = 40
   \<and> estimated_minutes pickup_order = 40"
proof -
  have nonempty: "OrderRequest.items pickup_request \<noteq> []"
    by (simp add: pickup_request_def)
  have contribution: "Max (prep_contribution (run []) ` set (OrderRequest.items pickup_request)) = 25"
    by (simp add: run_Nil prep_contribution_def pickup_request_def margherita_def
        OrderService_init_def)
  have same: "OrderRequest.items (pickup_request\<lparr>OrderRequest.customer_name := str ''Bob''\<rparr>)
        = OrderRequest.items pickup_request
      \<and> OrderRequest.is_delivery (pickup_request\<lparr>OrderRequest.customer_name := str ''Bob''\<rparr>)
        = OrderRequest.is_delivery pickup_request"
    by simp
  have created: "create_order (run []) example_env pickup_request
      = (Inr pickup_order, run [CreateOrder example_env pickup_request])"
    using run1 by (simp add: run_Nil create1)
  note spec = estimated_time_spec [of pickup_request "[]"]
  from spec nonempty contribution
  have a: "calculate_estimated_time (run []) pickup_request = 40"
    by (simp add: request_fields)
  from spec same
  have b: "calculate_estimated_time (run [CreateOrder example_env pickup_request])
         (pickup_request\<lparr>OrderRequest.customer_name := str ''Bob''\<rparr>)
       = calculate_estimated_time (run []) pickup_request"
    by blast
  from spec created
  have c: "estimated_minutes pickup_order = calculate_estimated_time (run []) pickup_request"
    by blast
  from nonempty contribution a b c show ?thesis by simp
qed

lemma create_order_reachable:
  assumes "create_order (run calls) e request = (Inr response, self')"
  shows "OrderResponse.items response = OrderRequest.items request"
    and "validate_menu_items (run calls) (OrderRequest.items request) = Inr ()"
proof -
  from assms show v: "validate_menu_items (run calls) (OrderRequest.items request) = Inr ()"
    using create_order_Inr_iff [of "run calls" e request] by blast
  from create_order_Inr [OF v, of e] assms
  show "OrderResponse.items response = OrderRequest.items request"
    by auto
qed

lemma catalog_name_known:
  "i \<in> set (map id' (menu_items self)) \<Longrightarrow> catalog_name self i \<noteq> None"
  by (auto simp: catalog_name_def find_None_iff)

section \<open>Names of line items\<close>

text \<open>
  C9 as stated does not hold: a line item with the identifier 101 and the name
  \<open>Cola\<close> is accepted and stored under that name, while the menu item 101 has
  another name.
\<close>

theorem line_item_name_counterexample:
  "create_order OrderService_init example_env mislabelled_request
     = (Inr mislabelled_order,
        OrderService_init\<lparr>orders := [(str ''ORD-20240115-3F2A9C4E'', mislabelled_order)]\<rparr>)
   \<and> OrderResponse.items mislabelled_order = [mislabelled]
   \<and> menu_item_id mislabelled = 101
   \<and> OrderItem.name mislabelled = str ''Cola''
   \<and> catalog_name OrderService_init 101
       = Some [1055, 1080, 1094, 1094, 1072, 32, 1052, 1072, 1088, 1075, 1072, 1088, 1080,
               1090, 1072]
   \<and> str ''Cola'' \<noteq> [1055, 1080, 1094, 1094, 1072, 32, 1052, 1072, 1088, 1075, 1072, 1088,
               1080, 1090, 1072]"
proof (intro conjI)
  show "create_order OrderService_init example_env mislabelled_request
     = (Inr mislabelled_order,
        OrderService_init\<lparr>orders := [(str ''ORD-20240115-3F2A9C4E'', mislabelled_order)]\<rparr>)"
    by (simp add: create_order_def menu_ids mislabelled_request_def mislabelled_def gen_id
      Let_def schedule_status_updates_def calculate_items_total_def calculate_discount_def
      calculate_estimated_time_def py_round_def round_half_even_def OrderService_init_def
      example_env_fields mislabelled_order_def)
  show "OrderResponse.items mislabelled_order = [mislabelled]"
    by (simp add: mislabelled_order_def)
  show "menu_item_id mislabelled = 101" "OrderItem.name mislabelled = str ''Cola''"
    by (simp_all add: mislabelled_def)
  show "catalog_name OrderService_init 101
       = Some [1055, 1080, 1094, 1094, 1072, 32, 1052, 1072, 1088, 1075, 1072, 1088, 1080,
               1090, 1072]"
    by (simp add: catalog_name_def OrderService_init_def)
  show "str ''Cola'' \<noteq> [1055, 1080, 1094, 1094, 1072, 32, 1052, 1072, 1088, 1075, 1072, 1088,
               1080, 1090, 1072]"
    by (simp add: str_def)
qed

text \<open>
  C9, amended. For every request that \<^verbatim>\<open>create_order\<close> accepts, in every state the
  service reaches, the order holds the line items as the request gave them, names
  included, and the identifier of each line item is that of a menu item; the name of a
  line item is not compared with the menu.
\<close>

theorem create_order_line_items:
  "\<forall>response self'.
     create_order (run calls) e request = (Inr response, self') \<longrightarrow>
       OrderResponse.items response = OrderRequest.items request
       \<and> (\<forall>item \<in> set (OrderResponse.items response).
             menu_item_id item \<in> set (map id' (menu_items (run calls)))
             \<and> catalog_name (run calls) (menu_item_id item) \<noteq> None)"
proof (intro allI impI)
  fix response :: OrderResponse and self' :: OrderService
  assume ok: "create_order (run calls) e request = (Inr response, self')"
  note r = create_order_reachable [OF ok]
  from r(2) have "\<forall>item \<in> set (OrderRequest.items request).
      menu_item_id item \<in> set (map id' (menu_items (run calls)))"
    by (simp only: validate_menu_items_ok)
  with r(1) show "OrderResponse.items response = OrderRequest.items request
       \<and> (\<forall>item \<in> set (OrderResponse.items response).
             menu_item_id item \<in> set (map id' (menu_items (run calls)))
             \<and> catalog_name (run calls) (menu_item_id item) \<noteq> None)"
    using catalog_name_known by auto
qed

text \<open>The line item named \<open>Cola\<close> under the identifier 101 is kept as it came.\<close>

theorem create_order_line_items_witness:
  "create_order (run []) example_env mislabelled_request
     = (Inr mislabelled_order,
        OrderService_init\<lparr>orders := [(str ''ORD-20240115-3F2A9C4E'', mislabelled_order)]\<rparr>)
   \<and> OrderResponse.items mislabelled_order = OrderRequest.items mislabelled_request
   \<and> mislabelled \<in> set (OrderResponse.items mislabelled_order)
   \<and> menu_item_id mislabelled \<in> set (map id' (menu_items (run [])))
   \<and> catalog_name (run []) (menu_item_id mislabelled) \<noteq> None"
proof -
  have created: "create_order (run []) example_env mislabelled_request
     = (Inr mislabelled_order,
        OrderService_init\<lparr>orders := [(str ''ORD-20240115-3F2A9C4E'', mislabelled_order)]\<rparr>)"
    by (simp add: run_Nil create_order_def menu_ids mislabelled_request_def mislabelled_def
      gen_id Let_def schedule_status_updates_def calculate_items_total_def
      calculate_discount_def calculate_estimated_time_def py_round_def round_half_even_def
      OrderService_init_def example_env_fields mislabelled_order_def)
  have member: "mislabelled \<in> set (OrderResponse.items mislabelled_order)"
    by (simp add: mislabelled_order_def)
  from create_order_line_items [of "[]" example_env mislabelled_request] created member
  show ?thesis by blast
qed

section \<open>The stored amounts\<close>






section \<open>Payments\<close>

lemma hex_upper_digit: "d < 16 \<Longrightarrow> hex_upper (upper_char (hex_digit d))"
  by (auto simp: hex_upper_def upper_char_def hex_digit_def)

lemma payment_suffix:
  "length (upper (take 8 (uuid_hex u))) = 8
   \<and> list_all hex_upper (upper (take 8 (uuid_hex u)))"
  by (simp add: upper_def take8_uuid_hex list_all_iff hex_upper_digit)

lemma payment_id_example: "upper (take 8 (uuid_hex (uuid4 example_env))) = str ''3F2A9C4E''"
  by (simp add: example_env_def take8_uuid_hex upt8 upper_def upper_char_def hex_digit_def
      str_def)

text \<open>
  C8 as stated does not hold: for the amount 0 the result has the status \<open>failed\<close>
  and an \<open>error\<close> entry, and holds neither the amount nor the method.
\<close>

theorem process_payment_counterexample:
  "process_payment example_env (str ''ORD-20240115-3F2A9C4E'') 0 (str ''card'')
     = Inr [(''payment_id'', PyStr (str ''PAY-3F2A9C4E'')),
            (''status'', PyStr (str ''failed'')),
            (''error'', PyStr (str ''Payment processing failed'')),
            (''transaction_time'', PyStr (str ''2024-01-15T10:30:00''))]
   \<and> map_of [(''payment_id'', PyStr (str ''PAY-3F2A9C4E'')),
              (''status'', PyStr (str ''failed'')),
              (''error'', PyStr (str ''Payment processing failed'')),
              (''transaction_time'', PyStr (str ''2024-01-15T10:30:00''))] ''amount'' = None
   \<and> map_of [(''payment_id'', PyStr (str ''PAY-3F2A9C4E'')),
              (''status'', PyStr (str ''failed'')),
              (''error'', PyStr (str ''Payment processing failed'')),
              (''transaction_time'', PyStr (str ''2024-01-15T10:30:00''))] ''payment_method''
       = None"
proof (intro conjI)
  show "process_payment example_env (str ''ORD-20240115-3F2A9C4E'') 0 (str ''card'')
     = Inr [(''payment_id'', PyStr (str ''PAY-3F2A9C4E'')),
            (''status'', PyStr (str ''failed'')),
            (''error'', PyStr (str ''Payment processing failed'')),
            (''transaction_time'', PyStr (str ''2024-01-15T10:30:00''))]"
    by (simp add: process_payment_def Let_def payment_id_example)
      (simp add: str_def example_env_def)
qed simp_all

text \<open>
  C8, amended. \<^verbatim>\<open>process_payment\<close> always returns a dictionary, never an exception,
  and the service with its orders is as before. The dictionary holds a payment
  identifier \<open>PAY-\<close> followed by 8 characters, each a digit or a capital letter A to F,
  and the transaction time. If the amount is greater than 0 the status is \<open>success\<close>
  and the dictionary also holds the amount and the method; otherwise the status is
  \<open>failed\<close> and it holds an \<open>error\<close> entry and neither the amount nor the method.
\<close>

theorem process_payment_spec:
  "(\<exists>suffix. length suffix = 8 \<and> list_all hex_upper suffix
      \<and> process_payment e oid amount payment_method =
          Inr (if amount > 0
               then [(''payment_id'', PyStr (str ''PAY-'' @ suffix)),
                     (''status'', PyStr (str ''success'')),
                     (''amount'', PyFloat amount),
                     (''payment_method'', PyStr payment_method),
                     (''transaction_time'', PyStr (utcnow_isoformat e))]
               else [(''payment_id'', PyStr (str ''PAY-'' @ suffix)),
                     (''status'', PyStr (str ''failed'')),
                     (''error'', PyStr (str ''Payment processing failed'')),
                     (''transaction_time'', PyStr (utcnow_isoformat e))]))
   \<and> step self (ProcessPayment e oid amount payment_method) = self"
proof
  show "\<exists>suffix. length suffix = 8 \<and> list_all hex_upper suffix
      \<and> process_payment e oid amount payment_method =
          Inr (if amount > 0
               then [(''payment_id'', PyStr (str ''PAY-'' @ suffix)),
                     (''status'', PyStr (str ''success'')),
                     (''amount'', PyFloat amount),
                     (''payment_method'', PyStr payment_method),
                     (''transaction_time'', PyStr (utcnow_isoformat e))]
               else [(''payment_id'', PyStr (str ''PAY-'' @ suffix)),
                     (''status'', PyStr (str ''failed'')),
                     (''error'', PyStr (str ''Payment processing failed'')),
                     (''transaction_time'', PyStr (utcnow_isoformat e))])"
    using payment_suffix [of "uuid4 e"]
    by (intro exI [of _ "upper (take 8 (uuid_hex (uuid4 e)))"])
      (simp add: process_payment_def Let_def)
  show "step self (ProcessPayment e oid amount payment_method) = self"
    by simp
qed

text \<open>A payment of 1170 succeeds, one of -5 fails, and the stored order is untouched.\<close>

theorem process_payment_spec_witness:
  "process_payment example_env (str ''ORD-20240115-3F2A9C4E'') 1170 (str ''card'')
     = Inr [(''payment_id'', PyStr (str ''PAY-3F2A9C4E'')),
            (''status'', PyStr (str ''success'')),
            (''amount'', PyFloat 1170),
            (''payment_method'', PyStr (str ''card'')),
            (''transaction_time'', PyStr (str ''2024-01-15T10:30:00''))]
   \<and> process_payment example_env (str ''ORD-20240115-3F2A9C4E'') (- 5) (str ''card'')
     = Inr [(''payment_id'', PyStr (str ''PAY-3F2A9C4E'')),
            (''status'', PyStr (str ''failed'')),
            (''error'', PyStr (str ''Payment processing failed'')),
            (''transaction_time'', PyStr (str ''2024-01-15T10:30:00''))]
   \<and> step (run [CreateOrder example_env pickup_request])
        (ProcessPayment example_env (str ''ORD-20240115-3F2A9C4E'') 1170 (str ''card''))
       = run [CreateOrder example_env pickup_request]"
proof -
  have iso: "utcnow_isoformat example_env = str ''2024-01-15T10:30:00''"
    by (simp add: example_env_def)
  have pay: "str ''PAY-'' @ str ''3F2A9C4E'' = str ''PAY-3F2A9C4E''"
    by (simp add: str_def)
  from process_payment_spec [of example_env "str ''ORD-20240115-3F2A9C4E''" 1170 "str ''card''"
      "run [CreateOrder example_env pickup_request]"]
    process_payment_spec [of example_env "str ''ORD-20240115-3F2A9C4E''" "- 5" "str ''card''"
      "run [CreateOrder example_env pickup_request]"]
  show ?thesis
    by (simp add: process_payment_def Let_def payment_id_example iso pay)
qed

section \<open>The delivery address\<close>

text \<open>
  When the constructor calls \<^verbatim>\<open>validate_delivery_address\<close>, \<^verbatim>\<open>is_delivery\<close> is not
  among the validated fields yet, since the class declares it after
  \<^verbatim>\<open>delivery_address\<close>: the validator returns the address whatever it is, and the
  constructor never fails for a missing address.
\<close>

lemma validate_delivery_address_in_init:
  "validate_delivery_address v
     (Map.empty(''customer_name'' \<mapsto> a, ''customer_phone'' \<mapsto> b, ''items'' \<mapsto> c)) = Inr v"
  by (simp add: validate_delivery_address_def values_get_def)

lemma address_never_required:
  "OrderRequest_init nd name_arg phone_arg items_arg address_arg delivery_arg instructions_arg
     \<noteq> Inl (ValidationError AddressRequired)"
  by (simp add: OrderRequest_init_def validate_delivery_address_in_init validate_phone_def
      validate_items_def field_error_def Let_def split: option.splits)

text \<open>
  C5 fails on the code. A request for delivery is accepted without an address, whether
  the address is not passed, passed as \<^verbatim>\<open>None\<close> or passed empty, and
  \<^verbatim>\<open>create_order\<close> stores an order with the delivery flag set and no address.
\<close>

theorem delivery_without_address_accepted:
  "OrderRequest_init nd (str ''Bob'') (str ''89001234567'') [cola, margherita]
      None (Some True) None = Inr no_address_request
   \<and> OrderRequest_init nd (str ''Bob'') (str ''89001234567'') [cola, margherita]
      (Some None) (Some True) None = Inr no_address_request
   \<and> OrderRequest_init nd (str ''Bob'') (str ''89001234567'') [cola, margherita]
      (Some (Some [])) (Some True) None
       = Inr (no_address_request\<lparr>OrderRequest.delivery_address := Some []\<rparr>)
   \<and> OrderRequest.is_delivery no_address_request
   \<and> OrderRequest.delivery_address no_address_request = None
   \<and> create_order OrderService_init example_env2 no_address_request
       = (Inr no_address_order,
          OrderService_init\<lparr>orders := [(str ''ORD-20240115-7C01D2E3'', no_address_order)]\<rparr>)
   \<and> OrderResponse.is_delivery no_address_order
   \<and> OrderResponse.delivery_address no_address_order = None"
proof -
  have phone: "validate_phone nd (str ''89001234567'') = Inr (str ''89001234567'')"
    by (simp add: validate_phone_def phone_pattern_match_def phone_class_def re_digit_def
        str_def)
  have its: "OrderItem_valid cola" "OrderItem_valid margherita"
    by (simp_all add: OrderItem_valid_def OrderItem_init_def cola_def margherita_def str_def)
  have lengths: "length (str ''Bob'') = 3" "length (str ''89001234567'') = 11"
    by (simp_all add: str_def)
  have init: "OrderRequest_init nd (str ''Bob'') (str ''89001234567'') [cola, margherita]
      address_arg (Some True) None
      = Inr (no_address_request\<lparr>OrderRequest.delivery_address :=
               (case address_arg of None \<Rightarrow> None | Some v \<Rightarrow> v)\<rparr>)" for address_arg
    by (simp add: OrderRequest_init_def phone its lengths validate_items_def
        validate_delivery_address_in_init no_address_request_def split: option.splits)
  have created: "create_order OrderService_init example_env2 no_address_request
       = (Inr no_address_order,
          OrderService_init\<lparr>orders := [(str ''ORD-20240115-7C01D2E3'', no_address_order)]\<rparr>)"
    by (simp add: create_order_def menu_ids no_address_request_def margherita_def cola_def
      gen_id2 Let_def schedule_status_updates_def calculate_items_total_def
      calculate_discount_def calculate_estimated_time_def py_round_def round_half_even_def
      OrderService_init_def example_env_fields no_address_order_def)
  have fields: "OrderRequest.is_delivery no_address_request"
    "OrderRequest.delivery_address no_address_request = None"
    "OrderResponse.is_delivery no_address_order"
    "OrderResponse.delivery_address no_address_order = None"
    by (simp_all add: no_address_request_def no_address_order_def)
  from init [of None] init [of "Some None"] init [of "Some (Some [])"] created fields
  show ?thesis by simp
qed

end
